theory Spec2Isabelle
  imports Complex_Main "HOL-Library.Multiset"
begin

section \<open>Data model (models/mission.py, conflict/conflict_detector.py)\<close>

text \<open>
  Conventions of the embedding.
  \<^item> The value of a Python float is a real. In the first model of the detector every
    arithmetic operation of the source is the exact operation on \<open>real\<close> and \<open>np.sqrt\<close>
    is \<open>sqrt\<close>; rounding is outside that model. Infinities and NaN are outside both
    models.
  \<^item> A naive \<open>datetime\<close> is an \<open>int\<close>: the number of microseconds since midnight of
    a fixed day. A \<open>timedelta\<close> is an \<open>int\<close> of microseconds. The range limits of
    \<open>datetime\<close> are outside the model.
  \<^item> An exception is a value \<open>Inl e\<close> of a sum type; a normal return is \<open>Inr v\<close>.
  \<^item> Where a property depends on rounding, the detector is modelled a second time, in
    binary64 arithmetic: the functions with the suffix \<open>_double\<close> round the result of
    every arithmetic operation of the source to the nearest double. The two models
    agree wherever no operation rounds.
\<close>

datatype error = ValueError string | TypeError

text \<open>
  The fields \<open>x\<close>, \<open>y\<close>, \<open>z\<close> of \<open>Waypoint\<close> carry the prefix \<open>wp_\<close> here, so that
  the one-letter names stay free for variables.
\<close>

record Waypoint =
  wp_x :: real
  wp_y :: real
  wp_z :: "real option"
  timestamp :: "int option"

record Mission =
  waypoints :: "Waypoint list"
  start_time :: int
  end_time :: int
  drone_id :: string

record Conflict =
  location :: "real \<times> real"
  time :: int
  primary_drone :: string
  conflicting_drone :: string
  distance :: real
  description :: string

record ConflictDetector =
  safety_buffer :: real

subsection \<open>Waypoint.__post_init__\<close>

definition Waypoint_post_init :: "Waypoint \<Rightarrow> error + Waypoint" where
  "Waypoint_post_init self =
     (if wp_x self < 0 \<or> wp_y self < 0 then Inl (ValueError ''Coordinates cannot be negative'')
      else if wp_z self \<noteq> None \<and> the (wp_z self) < 0
        then Inl (ValueError ''Altitude cannot be negative'')
      else Inr self)"

subsection \<open>Mission.__post_init__\<close>

text \<open>
  The loop of lines 40 to 43: the first waypoint that carries a timestamp outside the
  mission window raises.
\<close>

fun validate_timestamps :: "int \<Rightarrow> int \<Rightarrow> Waypoint list \<Rightarrow> error + unit" where
  "validate_timestamps st en [] = Inr ()"
| "validate_timestamps st en (wp # wps) =
     (case timestamp wp of
        None \<Rightarrow> validate_timestamps st en wps
      | Some t \<Rightarrow>
          if \<not> (st \<le> t \<and> t \<le> en)
          then Inl (ValueError ''Waypoint timestamp must be within mission time window'')
          else validate_timestamps st en wps)"

text \<open>
  \<open>list.sort(key=...)\<close> is a stable sort, as \<open>sort_key\<close> is. The key
  \<open>the \<circ> timestamp\<close> is only applied when every waypoint has a timestamp.
\<close>

definition Mission_post_init :: "Mission \<Rightarrow> error + Mission" where
  "Mission_post_init self =
     (if waypoints self = [] then Inl (ValueError ''Mission must have at least one waypoint'')
      else if end_time self \<le> start_time self
        then Inl (ValueError ''End time must be after start time'')
      else
        let ws = (if list_all (\<lambda>wp. timestamp wp \<noteq> None) (waypoints self)
                  then sort_key (the \<circ> timestamp) (waypoints self)
                  else waypoints self)
        in case validate_timestamps (start_time self) (end_time self) ws of
             Inl e \<Rightarrow> Inl e
           | Inr _ \<Rightarrow> Inr (self\<lparr>waypoints := ws\<rparr>))"

section \<open>Conflict detector (conflict/conflict_detector.py)\<close>

subsection \<open>Formatting helpers\<close>

text \<open>
  \<open>timedelta(seconds=s)\<close> rounds to the nearest microsecond, ties to even; the
  format \<open>.2f\<close> rounds to two decimals the same way.
\<close>

definition round_half_even :: "real \<Rightarrow> int" where
  "round_half_even r =
     (let f = \<lfloor>r\<rfloor>; d = r - of_int f
      in if d < 1 / 2 then f else if 1 / 2 < d then f + 1
         else if even f then f else f + 1)"

definition timedelta_seconds :: "real \<Rightarrow> int" where
  "timedelta_seconds s = round_half_even (s * 1000000)"

definition total_seconds :: "int \<Rightarrow> real" where
  "total_seconds td = of_int td / 1000000"

fun str_nat :: "nat \<Rightarrow> string" where
  "str_nat n =
     (if n < 10 then [''0123456789'' ! n]
      else str_nat (n div 10) @ [''0123456789'' ! (n mod 10)])"

declare str_nat.simps [simp del]

definition two_digits :: "nat \<Rightarrow> string" where
  "two_digits n = [''0123456789'' ! (n div 10 mod 10), ''0123456789'' ! (n mod 10)]"

definition format_2f :: "real \<Rightarrow> string" where
  "format_2f r =
     (let n = nat (round_half_even (\<bar>r\<bar> * 100))
      in (if r < 0 then ''-'' else []) @ str_nat (n div 100) @ ''.'' @ two_digits (n mod 100))"

definition strftime_HMS :: "int \<Rightarrow> string" where
  "strftime_HMS t =
     (let s = t div 1000000
      in two_digits (nat (s div 3600 mod 24)) @ '':'' @ two_digits (nat (s div 60 mod 60))
         @ '':'' @ two_digits (nat (s mod 60)))"

subsection \<open>ConflictDetector._check_temporal_overlap\<close>

text \<open>
  \<open>a < b\<close> on two timestamps: ordering \<open>None\<close> against a \<open>datetime\<close> (or against
  \<open>None\<close>) raises \<open>TypeError\<close>.
\<close>

definition timestamp_less :: "int option \<Rightarrow> int option \<Rightarrow> error + bool" where
  "timestamp_less a b =
     (case a of None \<Rightarrow> Inl TypeError
      | Some s \<Rightarrow> (case b of None \<Rightarrow> Inl TypeError | Some t \<Rightarrow> Inr (s < t)))"

text \<open>
  \<open>not (A or B)\<close>: the second comparison is evaluated only when the first is false.
\<close>

definition check_temporal_overlap ::
  "Waypoint \<Rightarrow> Waypoint \<Rightarrow> Waypoint \<Rightarrow> Waypoint \<Rightarrow> error + bool" where
  "check_temporal_overlap wp1_start wp1_end wp2_start wp2_end =
     (case timestamp_less (timestamp wp1_end) (timestamp wp2_start) of
        Inl e \<Rightarrow> Inl e
      | Inr a \<Rightarrow>
          if a then Inr False
          else (case timestamp_less (timestamp wp2_end) (timestamp wp1_start) of
                  Inl e \<Rightarrow> Inl e
                | Inr b \<Rightarrow> Inr (\<not> b)))"

subsection \<open>ConflictDetector._find_intersection\<close>

text \<open>
  The local variable \<open>denominator\<close> of line 124, as a function of the four points.
\<close>

definition denominator ::
  "real \<times> real \<Rightarrow> real \<times> real \<Rightarrow> real \<times> real \<Rightarrow> real \<times> real \<Rightarrow> real" where
  "denominator p1 p2 p3 p4 =
     (fst p1 - fst p2) * (snd p3 - snd p4) - (snd p1 - snd p2) * (fst p3 - fst p4)"

definition find_intersection ::
  "Waypoint \<Rightarrow> Waypoint \<Rightarrow> Waypoint \<Rightarrow> Waypoint \<Rightarrow> (real \<times> real) option" where
  "find_intersection wp1_start wp1_end wp2_start wp2_end =
     (let p1 = (wp_x wp1_start, wp_y wp1_start);
          p2 = (wp_x wp1_end, wp_y wp1_end);
          p3 = (wp_x wp2_start, wp_y wp2_start);
          p4 = (wp_x wp2_end, wp_y wp2_end)
      in if denominator p1 p2 p3 p4 = 0 then None
         else
           let t = ((fst p1 - fst p3) * (snd p3 - snd p4) - (snd p1 - snd p3) * (fst p3 - fst p4))
                     / denominator p1 p2 p3 p4;
               u = - ((fst p1 - fst p2) * (snd p1 - snd p3) - (snd p1 - snd p2) * (fst p1 - fst p3))
                     / denominator p1 p2 p3 p4
           in if 0 \<le> t \<and> t \<le> 1 \<and> 0 \<le> u \<and> u \<le> 1
              then Some (fst p1 + t * (fst p2 - fst p1), snd p1 + t * (snd p2 - snd p1))
              else None)"

subsection \<open>ConflictDetector._calculate_conflict_time\<close>

text \<open>
  The local variables \<open>total_dist1\<close>, \<open>dist_to_conflict1\<close> and \<open>time_ratio1\<close> of
  lines 145 to 147, in exact arithmetic. Here a segment has \<open>total_dist1 = 0\<close> only when
  its length is zero; in the source the squares can underflow, which
  \<open>total_dist1_double\<close> below accounts for.
\<close>

definition total_dist1 :: "Waypoint \<Rightarrow> Waypoint \<Rightarrow> real" where
  "total_dist1 wp1_start wp1_end =
     sqrt ((wp_x wp1_end - wp_x wp1_start)\<^sup>2 + (wp_y wp1_end - wp_y wp1_start)\<^sup>2)"

definition dist_to_conflict1 :: "Waypoint \<Rightarrow> real \<times> real \<Rightarrow> real" where
  "dist_to_conflict1 wp1_start intersection =
     sqrt ((fst intersection - wp_x wp1_start)\<^sup>2 + (snd intersection - wp_y wp1_start)\<^sup>2)"

definition time_ratio1 :: "Waypoint \<Rightarrow> Waypoint \<Rightarrow> real \<times> real \<Rightarrow> real" where
  "time_ratio1 wp1_start wp1_end intersection =
     (if 0 < total_dist1 wp1_start wp1_end
      then dist_to_conflict1 wp1_start intersection / total_dist1 wp1_start wp1_end
      else 0)"

text \<open>
  Subtracting timestamps raises \<open>TypeError\<close> when one of them is \<open>None\<close>. The
  function is declared to return an optional \<open>datetime\<close> and returns one on every path.
\<close>

definition calculate_conflict_time ::
  "Waypoint \<Rightarrow> Waypoint \<Rightarrow> Waypoint \<Rightarrow> Waypoint \<Rightarrow> real \<times> real \<Rightarrow> error + int option" where
  "calculate_conflict_time wp1_start wp1_end wp2_start wp2_end intersection =
     (case timestamp wp1_end of None \<Rightarrow> Inl TypeError
      | Some t1 \<Rightarrow>
         (case timestamp wp1_start of None \<Rightarrow> Inl TypeError
          | Some t0 \<Rightarrow>
              let time_diff1 = total_seconds (t1 - t0)
              in Inr (Some (t0 + timedelta_seconds
                                   (time_ratio1 wp1_start wp1_end intersection * time_diff1)))))"

subsection \<open>ConflictDetector._calculate_distance\<close>

definition calculate_distance :: "Waypoint \<Rightarrow> Waypoint \<Rightarrow> real \<times> real \<Rightarrow> real" where
  "calculate_distance wp1 wp2 point = sqrt ((wp_x wp1 - wp_x wp2)\<^sup>2 + (wp_y wp1 - wp_y wp2)\<^sup>2)"

subsection \<open>ConflictDetector._check_mission_pair\<close>

definition make_conflict ::
  "Mission \<Rightarrow> Mission \<Rightarrow> real \<times> real \<Rightarrow> int \<Rightarrow> real \<Rightarrow> Conflict" where
  "make_conflict mission1 mission2 conflict_point conflict_time dis =
     \<lparr>location = conflict_point,
      time = conflict_time,
      primary_drone = drone_id mission1,
      conflicting_drone = drone_id mission2,
      distance = dis,
      description =
        ''Conflict between '' @ drone_id mission1 @ '' and '' @ drone_id mission2 @ '' ''
        @ ''at ('' @ format_2f (fst conflict_point) @ '', '' @ format_2f (snd conflict_point) @ '') ''
        @ ''at time '' @ strftime_HMS conflict_time @ '' ''
        @ ''with distance '' @ format_2f dis @ ''m''\<rparr>"

text \<open>
  The body of the inner loop (lines 69 to 102) for the segment pair \<open>(i, j)\<close>: the
  conflicts it appends, or the exception it raises. The indices are in range on every
  call, \<open>i + 1 < len(mission1.waypoints)\<close> and \<open>j + 1 < len(mission2.waypoints)\<close>.
  A tuple of two floats and a \<open>datetime\<close> are truthy, so the tests
  \<open>if conflict_point\<close> and \<open>if conflict_time\<close> test for \<open>None\<close>.
\<close>

definition check_segment_pair ::
  "ConflictDetector \<Rightarrow> Mission \<Rightarrow> Mission \<Rightarrow> nat \<Rightarrow> nat \<Rightarrow> error + Conflict list" where
  "check_segment_pair self mission1 mission2 i j =
     (let wp1_start = waypoints mission1 ! i;
          wp1_end = waypoints mission1 ! (i + 1);
          wp2_start = waypoints mission2 ! j;
          wp2_end = waypoints mission2 ! (j + 1)
      in case check_temporal_overlap wp1_start wp1_end wp2_start wp2_end of
           Inl e \<Rightarrow> Inl e
         | Inr overlap \<Rightarrow>
             if \<not> overlap then Inr []
             else (case find_intersection wp1_start wp1_end wp2_start wp2_end of
                     None \<Rightarrow> Inr []
                   | Some conflict_point \<Rightarrow>
                      (case calculate_conflict_time wp1_start wp1_end wp2_start wp2_end
                              conflict_point of
                         Inl e \<Rightarrow> Inl e
                       | Inr None \<Rightarrow> Inr []
                       | Inr (Some conflict_time) \<Rightarrow>
                           let dis = calculate_distance wp1_start wp2_start conflict_point
                           in if dis < safety_buffer self
                              then Inr [make_conflict mission1 mission2 conflict_point
                                          conflict_time dis]
                              else Inr [])))"

text \<open>The loop over \<open>j\<close>, with the list \<open>conflicts\<close> as accumulator.\<close>

fun inner_loop ::
  "ConflictDetector \<Rightarrow> Mission \<Rightarrow> Mission \<Rightarrow> nat \<Rightarrow> nat list \<Rightarrow> Conflict list
     \<Rightarrow> error + Conflict list" where
  "inner_loop self mission1 mission2 i [] conflicts = Inr conflicts"
| "inner_loop self mission1 mission2 i (j # js) conflicts =
     (case check_segment_pair self mission1 mission2 i j of
        Inl e \<Rightarrow> Inl e
      | Inr cs \<Rightarrow> inner_loop self mission1 mission2 i js (conflicts @ cs))"

text \<open>The loop over \<open>i\<close>.\<close>

fun outer_loop ::
  "ConflictDetector \<Rightarrow> Mission \<Rightarrow> Mission \<Rightarrow> nat list \<Rightarrow> nat list \<Rightarrow> Conflict list
     \<Rightarrow> error + Conflict list" where
  "outer_loop self mission1 mission2 [] js conflicts = Inr conflicts"
| "outer_loop self mission1 mission2 (i # is) js conflicts =
     (case inner_loop self mission1 mission2 i js conflicts of
        Inl e \<Rightarrow> Inl e
      | Inr conflicts' \<Rightarrow> outer_loop self mission1 mission2 is js conflicts')"

text \<open>
  \<open>range(len(ws) - 1)\<close> is empty when \<open>ws\<close> has one element or none, as
  \<open>[0..<length ws - 1]\<close> is with the truncating subtraction of \<open>nat\<close>.
\<close>

definition check_mission_pair ::
  "ConflictDetector \<Rightarrow> Mission \<Rightarrow> Mission \<Rightarrow> error + Conflict list" where
  "check_mission_pair self mission1 mission2 =
     outer_loop self mission1 mission2
       [0..<length (waypoints mission1) - 1] [0..<length (waypoints mission2) - 1] []"

subsection \<open>ConflictDetector.check_mission\<close>

fun missions_loop ::
  "ConflictDetector \<Rightarrow> Mission \<Rightarrow> Mission list \<Rightarrow> Conflict list \<Rightarrow> error + Conflict list" where
  "missions_loop self primary_mission [] conflicts = Inr conflicts"
| "missions_loop self primary_mission (other_mission # rest) conflicts =
     (case check_mission_pair self primary_mission other_mission of
        Inl e \<Rightarrow> Inl e
      | Inr mission_conflicts \<Rightarrow>
          missions_loop self primary_mission rest (conflicts @ mission_conflicts))"

definition check_mission ::
  "ConflictDetector \<Rightarrow> Mission \<Rightarrow> Mission list \<Rightarrow> error + (string \<times> Conflict list)" where
  "check_mission self primary_mission other_missions =
     (case missions_loop self primary_mission other_missions [] of
        Inl e \<Rightarrow> Inl e
      | Inr conflicts \<Rightarrow>
          if conflicts \<noteq> [] then Inr (''conflict detected'', conflicts)
          else Inr (''clear'', []))"

section \<open>The detector in binary64 arithmetic\<close>

text \<open>
  A finite double is a real \<open>m * 2 ^ e\<close> with an integer \<open>m\<close>, \<open>\<bar>m\<bar> < 2 ^ 53\<close>, and
  \<open>- 1074 \<le> e\<close>. \<open>double_round r\<close> is the double nearest to \<open>r\<close>, ties to even: the
  spacing of the doubles around \<open>r\<close> is \<open>2 ^ (e - 52)\<close> for \<open>2 ^ e \<le> \<bar>r\<bar> < 2 ^ (e + 1)\<close>
  and \<open>2 ^ (- 1074)\<close> below \<open>2 ^ (- 1022)\<close>, where results underflow gradually and at last
  to 0. Results beyond the largest double (infinities, NaN, the \<open>OverflowError\<close> of
  \<open>**\<close>) are outside the model.
\<close>

definition double_round :: "real \<Rightarrow> real" where
  "double_round r =
     (if r = 0 then 0
      else let e = max \<lfloor>log 2 \<bar>r\<bar>\<rfloor> (- 1022); ulp = 2 powr (of_int e - 52)
           in of_int (round_half_even (r / ulp)) * ulp)"

text \<open>
  The operations of Python floats and of \<open>numpy.float64\<close>: the exact result, rounded.
  \<open>square64\<close> is \<open>x**2\<close>, \<open>sqrt64\<close> is \<open>np.sqrt\<close>.
\<close>

definition sub64 :: "real \<Rightarrow> real \<Rightarrow> real" where "sub64 a b = double_round (a - b)"
definition add64 :: "real \<Rightarrow> real \<Rightarrow> real" where "add64 a b = double_round (a + b)"
definition mul64 :: "real \<Rightarrow> real \<Rightarrow> real" where "mul64 a b = double_round (a * b)"
definition div64 :: "real \<Rightarrow> real \<Rightarrow> real" where "div64 a b = double_round (a / b)"
definition sqrt64 :: "real \<Rightarrow> real" where "sqrt64 a = double_round (sqrt a)"
definition square64 :: "real \<Rightarrow> real" where "square64 a = double_round (a\<^sup>2)"

text \<open>
  The functions of the detector that compute with floats, operation by operation as in
  the source. The temporal overlap test and the construction of the record are those of
  the previous section.
\<close>

definition denominator_double ::
  "real \<times> real \<Rightarrow> real \<times> real \<Rightarrow> real \<times> real \<Rightarrow> real \<times> real \<Rightarrow> real" where
  "denominator_double p1 p2 p3 p4 =
     sub64 (mul64 (sub64 (fst p1) (fst p2)) (sub64 (snd p3) (snd p4)))
           (mul64 (sub64 (snd p1) (snd p2)) (sub64 (fst p3) (fst p4)))"

definition find_intersection_double ::
  "Waypoint \<Rightarrow> Waypoint \<Rightarrow> Waypoint \<Rightarrow> Waypoint \<Rightarrow> (real \<times> real) option" where
  "find_intersection_double wp1_start wp1_end wp2_start wp2_end =
     (let p1 = (wp_x wp1_start, wp_y wp1_start);
          p2 = (wp_x wp1_end, wp_y wp1_end);
          p3 = (wp_x wp2_start, wp_y wp2_start);
          p4 = (wp_x wp2_end, wp_y wp2_end)
      in if denominator_double p1 p2 p3 p4 = 0 then None
         else
           let t = div64 (sub64 (mul64 (sub64 (fst p1) (fst p3)) (sub64 (snd p3) (snd p4)))
                                (mul64 (sub64 (snd p1) (snd p3)) (sub64 (fst p3) (fst p4))))
                         (denominator_double p1 p2 p3 p4);
               u = div64 (- sub64 (mul64 (sub64 (fst p1) (fst p2)) (sub64 (snd p1) (snd p3)))
                                  (mul64 (sub64 (snd p1) (snd p2)) (sub64 (fst p1) (fst p3))))
                         (denominator_double p1 p2 p3 p4)
           in if 0 \<le> t \<and> t \<le> 1 \<and> 0 \<le> u \<and> u \<le> 1
              then Some (add64 (fst p1) (mul64 t (sub64 (fst p2) (fst p1))),
                         add64 (snd p1) (mul64 t (sub64 (snd p2) (snd p1))))
              else None)"

definition total_dist1_double :: "Waypoint \<Rightarrow> Waypoint \<Rightarrow> real" where
  "total_dist1_double wp1_start wp1_end =
     sqrt64 (add64 (square64 (sub64 (wp_x wp1_end) (wp_x wp1_start)))
                   (square64 (sub64 (wp_y wp1_end) (wp_y wp1_start))))"

definition dist_to_conflict1_double :: "Waypoint \<Rightarrow> real \<times> real \<Rightarrow> real" where
  "dist_to_conflict1_double wp1_start intersection =
     sqrt64 (add64 (square64 (sub64 (fst intersection) (wp_x wp1_start)))
                   (square64 (sub64 (snd intersection) (wp_y wp1_start))))"

definition time_ratio1_double :: "Waypoint \<Rightarrow> Waypoint \<Rightarrow> real \<times> real \<Rightarrow> real" where
  "time_ratio1_double wp1_start wp1_end intersection =
     (if 0 < total_dist1_double wp1_start wp1_end
      then div64 (dist_to_conflict1_double wp1_start intersection)
                 (total_dist1_double wp1_start wp1_end)
      else 0)"

definition total_seconds_double :: "int \<Rightarrow> real" where
  "total_seconds_double td = div64 (of_int td) 1000000"

definition calculate_conflict_time_double ::
  "Waypoint \<Rightarrow> Waypoint \<Rightarrow> Waypoint \<Rightarrow> Waypoint \<Rightarrow> real \<times> real \<Rightarrow> error + int option" where
  "calculate_conflict_time_double wp1_start wp1_end wp2_start wp2_end intersection =
     (case timestamp wp1_end of None \<Rightarrow> Inl TypeError
      | Some t1 \<Rightarrow>
         (case timestamp wp1_start of None \<Rightarrow> Inl TypeError
          | Some t0 \<Rightarrow>
              let time_diff1 = total_seconds_double (t1 - t0)
              in Inr (Some (t0 + timedelta_seconds
                     (mul64 (time_ratio1_double wp1_start wp1_end intersection) time_diff1)))))"

definition calculate_distance_double :: "Waypoint \<Rightarrow> Waypoint \<Rightarrow> real \<times> real \<Rightarrow> real" where
  "calculate_distance_double wp1 wp2 point =
     sqrt64 (add64 (square64 (sub64 (wp_x wp1) (wp_x wp2)))
                   (square64 (sub64 (wp_y wp1) (wp_y wp2))))"

definition check_segment_pair_double ::
  "ConflictDetector \<Rightarrow> Mission \<Rightarrow> Mission \<Rightarrow> nat \<Rightarrow> nat \<Rightarrow> error + Conflict list" where
  "check_segment_pair_double self mission1 mission2 i j =
     (let wp1_start = waypoints mission1 ! i;
          wp1_end = waypoints mission1 ! (i + 1);
          wp2_start = waypoints mission2 ! j;
          wp2_end = waypoints mission2 ! (j + 1)
      in case check_temporal_overlap wp1_start wp1_end wp2_start wp2_end of
           Inl e \<Rightarrow> Inl e
         | Inr overlap \<Rightarrow>
             if \<not> overlap then Inr []
             else (case find_intersection_double wp1_start wp1_end wp2_start wp2_end of
                     None \<Rightarrow> Inr []
                   | Some conflict_point \<Rightarrow>
                      (case calculate_conflict_time_double wp1_start wp1_end wp2_start wp2_end
                              conflict_point of
                         Inl e \<Rightarrow> Inl e
                       | Inr None \<Rightarrow> Inr []
                       | Inr (Some conflict_time) \<Rightarrow>
                           let dis = calculate_distance_double wp1_start wp2_start conflict_point
                           in if dis < safety_buffer self
                              then Inr [make_conflict mission1 mission2 conflict_point
                                          conflict_time dis]
                              else Inr [])))"

section \<open>Scenarios\<close>

text \<open>
  \<open>clock h m\<close> is the time of day \<open>h:m:00\<close> in microseconds; \<open>Waypoint_at a b t\<close> is
  the call \<open>Waypoint(x=a, y=b, timestamp=t)\<close>, \<open>Waypoint_xy a b\<close> the call
  \<open>Waypoint(x=a, y=b)\<close>. \<open>window ws name\<close> holds the fields of a mission with the
  waypoints \<open>ws\<close> and the time window from 10:00 to 10:10.
\<close>

definition clock :: "int \<Rightarrow> int \<Rightarrow> int" where
  "clock h m = (h * 3600 + m * 60) * 1000000"

definition Waypoint_at :: "real \<Rightarrow> real \<Rightarrow> int \<Rightarrow> Waypoint" where
  "Waypoint_at a b t = \<lparr>wp_x = a, wp_y = b, wp_z = None, timestamp = Some t\<rparr>"

definition Waypoint_xy :: "real \<Rightarrow> real \<Rightarrow> Waypoint" where
  "Waypoint_xy a b = \<lparr>wp_x = a, wp_y = b, wp_z = None, timestamp = None\<rparr>"

definition window :: "Waypoint list \<Rightarrow> string \<Rightarrow> Mission" where
  "window ws name =
     \<lparr>waypoints = ws, start_time = clock 10 0, end_time = clock 10 10, drone_id = name\<rparr>"

text \<open>Two drones that fly the same line in opposite directions.\<close>

definition head_on_primary :: Mission where
  "head_on_primary =
     window [Waypoint_at 0 100 (clock 10 0), Waypoint_at 200 100 (clock 10 10)] ''primary''"

definition head_on_other :: Mission where
  "head_on_other =
     window [Waypoint_at 200 100 (clock 10 0), Waypoint_at 0 100 (clock 10 10)] ''traffic1''"

text \<open>Two drones on parallel lines, 100 apart.\<close>

definition parallel_primary :: Mission where
  "parallel_primary =
     window [Waypoint_at 0 0 (clock 10 0), Waypoint_at 200 0 (clock 10 10)] ''primary''"

definition parallel_other :: Mission where
  "parallel_other =
     window [Waypoint_at 0 100 (clock 10 0), Waypoint_at 200 100 (clock 10 10)] ''traffic1''"

text \<open>
  Two paths that cross at right angles in \<open>(40, 30)\<close>; their start waypoints are
  exactly 50 apart.
\<close>

definition crossing_primary :: Mission where
  "crossing_primary =
     window [Waypoint_at 0 30 (clock 10 0), Waypoint_at 80 30 (clock 10 10)] ''primary''"

definition crossing_other :: Mission where
  "crossing_other =
     window [Waypoint_at 40 0 (clock 10 0), Waypoint_at 40 60 (clock 10 10)] ''traffic1''"

text \<open>Two missions whose waypoints carry no timestamp.\<close>

definition untimed_primary :: Mission where
  "untimed_primary = window [Waypoint_xy 0 0, Waypoint_xy 100 100] ''primary''"

definition untimed_other :: Mission where
  "untimed_other = window [Waypoint_xy 0 100, Waypoint_xy 100 0] ''traffic1''"

text \<open>A mission with a single waypoint.\<close>

definition hover :: Mission where
  "hover = window [Waypoint_xy 50 50] ''hover''"

text \<open>
  The crossing paths again, flown at other times: \<open>early_primary\<close> is over at 10:04,
  \<open>late_other\<close> starts at 10:06 and \<open>touching_other\<close> starts at 10:04 sharp.
\<close>

definition early_primary :: Mission where
  "early_primary =
     window [Waypoint_at 0 30 (clock 10 0), Waypoint_at 80 30 (clock 10 4)] ''primary''"

definition late_other :: Mission where
  "late_other =
     window [Waypoint_at 40 0 (clock 10 6), Waypoint_at 40 60 (clock 10 10)] ''traffic1''"

definition touching_other :: Mission where
  "touching_other =
     window [Waypoint_at 40 0 (clock 10 4), Waypoint_at 40 60 (clock 10 10)] ''traffic1''"

text \<open>A drone that stays in \<open>(40, 30)\<close>, on the path of \<open>crossing_other\<close>.\<close>

definition loiter :: Mission where
  "loiter =
     window [Waypoint_at 40 30 (clock 10 0), Waypoint_at 40 30 (clock 10 10)] ''primary''"

text \<open>
  Arguments of \<open>Mission(...)\<close>: waypoints given out of order, a waypoint after the end
  of the window, and the same waypoints in timestamp order.
\<close>

definition unsorted_mission :: Mission where
  "unsorted_mission =
     window [Waypoint_at 200 100 (clock 10 10), Waypoint_at 0 100 (clock 10 0),
             Waypoint_at 100 100 (clock 10 5)] ''primary''"

definition sorted_mission :: Mission where
  "sorted_mission =
     window [Waypoint_at 0 100 (clock 10 0), Waypoint_at 100 100 (clock 10 5),
             Waypoint_at 200 100 (clock 10 10)] ''primary''"

definition late_mission :: Mission where
  "late_mission =
     window [Waypoint_at 0 0 (clock 10 0), Waypoint_at 10 10 (clock 10 11)] ''late''"

text \<open>The conflict record of the crossing paths.\<close>

definition crossing_record :: Conflict where
  "crossing_record =
     \<lparr>location = (40, 30), time = clock 10 5, primary_drone = ''primary'',
      conflicting_drone = ''traffic1'', distance = 50,
      description =
        ''Conflict between primary and traffic1 at (40.00, 30.00) at time 10:05:00 with distance 50.00m''\<rparr>"

text \<open>
  A primary segment of length \<open>2 ^ (- 600)\<close>, crossed in its middle by a segment of
  length 1. All coordinates are doubles. \<open>tiny_record\<close> is the conflict record of
  the pair.
\<close>

definition tiny :: real where "tiny = 2 powr (- 600)"

definition tiny_primary :: Mission where
  "tiny_primary =
     window [Waypoint_at 0 0 (clock 10 0), Waypoint_at tiny 0 (clock 10 10)] ''primary''"

definition tiny_other :: Mission where
  "tiny_other =
     window [Waypoint_at (tiny / 2) 0 (clock 10 0), Waypoint_at (tiny / 2) 1 (clock 10 10)]
       ''traffic1''"

definition tiny_record :: Conflict where
  "tiny_record =
     \<lparr>location = (tiny / 2, 0), time = clock 10 0, primary_drone = ''primary'',
      conflicting_drone = ''traffic1'', distance = 0,
      description =
        ''Conflict between primary and traffic1 at (0.00, 0.00) at time 10:00:00 with distance 0.00m''\<rparr>"

lemmas scenario_defs =
  clock_def Waypoint_at_def Waypoint_xy_def window_def head_on_primary_def head_on_other_def
  parallel_primary_def parallel_other_def crossing_primary_def crossing_other_def
  untimed_primary_def untimed_other_def hover_def early_primary_def late_other_def
  touching_other_def loiter_def unsorted_mission_def sorted_mission_def late_mission_def

lemmas detector_defs =
  check_mission_def check_mission_pair_def check_segment_pair_def check_temporal_overlap_def
  timestamp_less_def find_intersection_def denominator_def

section \<open>Auxiliary facts about the detector\<close>

lemma timestamp_less_Some: "timestamp_less (Some s) (Some t) = Inr (s < t)"
  by (simp add: timestamp_less_def)

lemma timestamp_less_Inr:
  "timestamp_less a b = Inr r \<Longrightarrow> \<exists>s t. a = Some s \<and> b = Some t \<and> r = (s < t)"
  by (auto simp: timestamp_less_def split: option.splits)

lemma check_temporal_overlap_Some:
  assumes "timestamp a0 = Some s1" "timestamp a1 = Some e1"
    and "timestamp b0 = Some s2" "timestamp b1 = Some e2"
  shows "check_temporal_overlap a0 a1 b0 b1 = Inr (\<not> (e1 < s2 \<or> e2 < s1))"
  using assms by (simp add: check_temporal_overlap_def timestamp_less_Some)

lemma check_temporal_overlap_True:
  assumes "check_temporal_overlap a0 a1 b0 b1 = Inr True"
  shows "\<exists>s1 e1. timestamp a0 = Some s1 \<and> timestamp a1 = Some e1"
  using assms
  by (auto simp: check_temporal_overlap_def split: sum.splits if_splits dest!: timestamp_less_Inr)

lemma calculate_conflict_time_Some:
  assumes "timestamp a0 = Some s1" "timestamp a1 = Some e1"
  shows "\<exists>t. calculate_conflict_time a0 a1 b0 b1 p = Inr (Some t)"
  using assms by (simp add: calculate_conflict_time_def)

lemma check_segment_pair_cases:
  assumes "check_segment_pair self m1 m2 i j = Inr cs"
  shows "cs = [] \<or>
     (\<exists>p t. check_temporal_overlap (waypoints m1 ! i) (waypoints m1 ! (i + 1))
               (waypoints m2 ! j) (waypoints m2 ! (j + 1)) = Inr True
        \<and> find_intersection (waypoints m1 ! i) (waypoints m1 ! (i + 1))
               (waypoints m2 ! j) (waypoints m2 ! (j + 1)) = Some p
        \<and> calculate_distance (waypoints m1 ! i) (waypoints m2 ! j) p < safety_buffer self
        \<and> cs = [make_conflict m1 m2 p t (calculate_distance (waypoints m1 ! i) (waypoints m2 ! j) p)])"
  using assms
  by (auto simp: check_segment_pair_def Let_def split: sum.splits if_splits option.splits)

lemma check_segment_pair_emit:
  assumes "check_temporal_overlap (waypoints m1 ! i) (waypoints m1 ! (i + 1))
               (waypoints m2 ! j) (waypoints m2 ! (j + 1)) = Inr True"
    and "find_intersection (waypoints m1 ! i) (waypoints m1 ! (i + 1))
               (waypoints m2 ! j) (waypoints m2 ! (j + 1)) = Some p"
  shows "\<exists>t. check_segment_pair self m1 m2 i j =
      Inr (if calculate_distance (waypoints m1 ! i) (waypoints m2 ! j) p < safety_buffer self
           then [make_conflict m1 m2 p t (calculate_distance (waypoints m1 ! i) (waypoints m2 ! j) p)]
           else [])"
proof -
  from check_temporal_overlap_True[OF assms(1)] obtain s1 e1
    where "timestamp (waypoints m1 ! i) = Some s1" "timestamp (waypoints m1 ! (i + 1)) = Some e1"
    by blast
  then obtain t where "calculate_conflict_time (waypoints m1 ! i) (waypoints m1 ! (i + 1))
               (waypoints m2 ! j) (waypoints m2 ! (j + 1)) p = Inr (Some t)"
    using calculate_conflict_time_Some by blast
  then show ?thesis using assms
    by (auto simp: check_segment_pair_def Let_def)
qed

lemma inner_loop_member:
  "inner_loop self m1 m2 i js acc = Inr r \<Longrightarrow> c \<in> set r \<Longrightarrow>
     c \<in> set acc \<or> (\<exists>j\<in>set js. \<exists>cs. check_segment_pair self m1 m2 i j = Inr cs \<and> c \<in> set cs)"
proof (induction js arbitrary: acc)
  case Nil
  then show ?case by simp
next
  case (Cons j js)
  then show ?case by (fastforce split: sum.splits)
qed

lemma outer_loop_member:
  "outer_loop self m1 m2 is js acc = Inr r \<Longrightarrow> c \<in> set r \<Longrightarrow>
     c \<in> set acc \<or> (\<exists>i\<in>set is. \<exists>j\<in>set js. \<exists>cs. check_segment_pair self m1 m2 i j = Inr cs \<and> c \<in> set cs)"
proof (induction "is" arbitrary: acc)
  case Nil
  then show ?case by simp
next
  case (Cons i "is")
  from Cons.prems(1) obtain acc' where a: "inner_loop self m1 m2 i js acc = Inr acc'"
    and b: "outer_loop self m1 m2 is js acc' = Inr r"
    by (auto split: sum.splits)
  from Cons.IH[OF b Cons.prems(2)] inner_loop_member[OF a]
  show ?case by auto
qed

lemma check_mission_pair_member:
  assumes "check_mission_pair self m1 m2 = Inr r" "c \<in> set r"
  shows "\<exists>i j cs. i + 1 < length (waypoints m1) \<and> j + 1 < length (waypoints m2)
           \<and> check_segment_pair self m1 m2 i j = Inr cs \<and> c \<in> set cs"
proof -
  from outer_loop_member[OF assms[unfolded check_mission_pair_def]]
  obtain i j cs where "i \<in> set [0..<length (waypoints m1) - 1]"
    and "j \<in> set [0..<length (waypoints m2) - 1]"
    and "check_segment_pair self m1 m2 i j = Inr cs" and "c \<in> set cs"
    by auto
  moreover from this have "i + 1 < length (waypoints m1)" and "j + 1 < length (waypoints m2)"
    by auto
  ultimately show ?thesis by blast
qed

lemma inner_loop_empty:
  "\<forall>j\<in>set js. check_segment_pair self m1 m2 i j = Inr [] \<Longrightarrow>
     inner_loop self m1 m2 i js acc = Inr acc"
  by (induction js arbitrary: acc) auto

lemma outer_loop_empty:
  "\<forall>i\<in>set is. \<forall>j\<in>set js. check_segment_pair self m1 m2 i j = Inr [] \<Longrightarrow>
     outer_loop self m1 m2 is js acc = Inr acc"
  by (induction "is" arbitrary: acc) (auto simp: inner_loop_empty)

lemma make_conflict_distance: "distance (make_conflict m1 m2 p t d) = d"
  by (simp add: make_conflict_def)

lemma missions_loop_append:
  "missions_loop self p (xs @ ys) acc =
     (case missions_loop self p xs acc of Inl e \<Rightarrow> Inl e | Inr a \<Rightarrow> missions_loop self p ys a)"
  by (induction xs arbitrary: acc) (auto split: sum.splits)

lemma missions_loop_empty:
  "\<forall>m\<in>set others. check_mission_pair self p m = Inr [] \<Longrightarrow>
     missions_loop self p others acc = Inr acc"
  by (induction others arbitrary: acc) auto

subsection \<open>The validation loop of Mission.__post_init__\<close>

lemma validate_timestamps_Inl_iff:
  "(\<exists>e. validate_timestamps st en ws = Inl e) \<longleftrightarrow>
     (\<exists>wp\<in>set ws. \<exists>t. timestamp wp = Some t \<and> \<not> (st \<le> t \<and> t \<le> en))"
  by (induction ws) (auto split: option.splits)

subsection \<open>The crossing paths, evaluated\<close>

lemma sqrt_1600: "sqrt 1600 = 40"
  using real_sqrt_abs [of 40] by simp

lemma sqrt_6400: "sqrt 6400 = 80"
  using real_sqrt_abs [of 80] by simp

lemma sqrt_2500: "sqrt 2500 = 50"
  using real_sqrt_abs [of 50] by simp

lemma crossing_overlap:
  "check_temporal_overlap (waypoints crossing_primary ! 0) (waypoints crossing_primary ! (0 + 1))
     (waypoints crossing_other ! 0) (waypoints crossing_other ! (0 + 1)) = Inr True"
  by (simp add: detector_defs scenario_defs)

lemma crossing_intersection:
  "find_intersection (waypoints crossing_primary ! 0) (waypoints crossing_primary ! (0 + 1))
     (waypoints crossing_other ! 0) (waypoints crossing_other ! (0 + 1)) = Some (40, 30)"
  by (simp add: detector_defs scenario_defs)

lemma crossing_distance:
  "calculate_distance (waypoints crossing_primary ! 0) (waypoints crossing_other ! 0) p = 50"
  by (simp add: calculate_distance_def scenario_defs sqrt_2500)

lemma crossing_conflict:
  "check_segment_pair \<lparr>safety_buffer = 51\<rparr> crossing_primary crossing_other 0 0
     = Inr [crossing_record]"
  by (simp add: detector_defs scenario_defs calculate_conflict_time_def calculate_distance_def
      time_ratio1_def total_dist1_def dist_to_conflict1_def timedelta_seconds_def total_seconds_def
      round_half_even_def make_conflict_def format_2f_def strftime_HMS_def two_digits_def
      sqrt_1600 sqrt_6400 sqrt_2500 crossing_record_def str_nat.simps)

lemma crossing_mission_pair:
  "check_mission_pair \<lparr>safety_buffer = 51\<rparr> crossing_primary crossing_other
     = Inr [crossing_record]"
proof -
  have "length (waypoints crossing_primary) = 2" "length (waypoints crossing_other) = 2"
    by (simp_all add: scenario_defs)
  then show ?thesis
    by (simp add: check_mission_pair_def crossing_conflict)
qed

subsection \<open>Rounding to binary64\<close>

lemma round_half_even_of_int: "round_half_even (of_int n) = n"
  by (simp add: round_half_even_def)

lemma round_half_even_small: "\<bar>r\<bar> < 1 / 2 \<Longrightarrow> round_half_even r = 0"
proof (cases "0 \<le> r")
  case True
  assume "\<bar>r\<bar> < 1 / 2"
  with True have "\<lfloor>r\<rfloor> = 0" by (simp add: floor_eq_iff)
  with \<open>\<bar>r\<bar> < 1 / 2\<close> True show ?thesis by (simp add: round_half_even_def)
next
  case False
  assume "\<bar>r\<bar> < 1 / 2"
  with False have "\<lfloor>r\<rfloor> = - 1" by (simp add: floor_eq_iff)
  with \<open>\<bar>r\<bar> < 1 / 2\<close> False show ?thesis by (simp add: round_half_even_def)
qed

lemma double_round_zero: "double_round 0 = 0"
  by (simp add: double_round_def)

lemma double_round_power_of_two:
  assumes "- 1022 \<le> k"
  shows "double_round (2 powr of_int k) = 2 powr of_int k"
    and "double_round (- (2 powr of_int k)) = - (2 powr of_int k)"
proof -
  have fl: "\<lfloor>log 2 (2 powr of_int k)\<rfloor> = k" by simp
  have mx: "max k (- 1022) = k" using assms by simp
  have q: "2 powr of_int k / 2 powr (of_int k - 52) = (of_int (2 ^ 52) :: real)"
    by (simp add: powr_diff)
  have p: "of_int (2 ^ 52) * 2 powr (of_int k - 52) = (2::real) powr of_int k"
    by (simp add: powr_diff)
  show "double_round (2 powr of_int k) = 2 powr of_int k"
    unfolding double_round_def Let_def
    using fl mx q p by (simp add: round_half_even_of_int del: of_int_power of_int_numeral)
  have q': "- (2 powr of_int k) / 2 powr (of_int k - 52) = (of_int (- (2 ^ 52)) :: real)"
    by (simp add: powr_diff)
  show "double_round (- (2 powr of_int k)) = - (2 powr of_int k)"
    unfolding double_round_def Let_def
    using fl mx q' p by (simp add: round_half_even_of_int del: of_int_power of_int_numeral of_int_minus)
qed

lemma double_round_underflow:
  assumes "\<bar>r\<bar> < 2 powr (- 1075)"
  shows "double_round r = 0"
proof (cases "r = 0")
  case True
  then show ?thesis by (simp add: double_round_def)
next
  case False
  then have pos: "0 < \<bar>r\<bar>" by simp
  have "log 2 \<bar>r\<bar> < log 2 (2 powr (- 1075))"
    using assms pos by (simp del: log_powr_cancel)
  then have "log 2 \<bar>r\<bar> < - 1075" by simp
  then have "\<lfloor>log 2 \<bar>r\<bar>\<rfloor> \<le> - 1022" by (simp add: floor_le_iff) 
  then have mx: "max \<lfloor>log 2 \<bar>r\<bar>\<rfloor> (- 1022) = - 1022" by simp
  have "\<bar>r / 2 powr (- 1074)\<bar> = \<bar>r\<bar> / 2 powr (- 1074)" by simp
  also have "\<dots> < 2 powr (- 1075) / 2 powr (- 1074)"
    using assms by (simp add: divide_strict_right_mono)
  also have "\<dots> = 2 powr (- 1)" by (simp add: powr_diff [symmetric])
  also have "\<dots> = 1 / 2" by (simp add: powr_minus_divide)
  finally have "round_half_even (r / 2 powr (- 1074)) = 0" by (rule round_half_even_small)
  then show ?thesis
    unfolding double_round_def Let_def using False mx by simp
qed


subsection \<open>The short segment, evaluated in binary64\<close>

lemma tiny_pos: "0 < tiny" by (simp add: tiny_def)

lemma tiny_small: "tiny < 1 / 200" 
proof -
  have "tiny \<le> 2 powr (- 8)" unfolding tiny_def by (rule powr_mono) simp_all
  also have "\<dots> = 1 / 2 ^ 8" by (rule powr_neg_numeral) simp
  finally show ?thesis by simp
qed

lemma double_round_tiny:
  "double_round tiny = tiny" "double_round (- tiny) = - tiny"
  "double_round (tiny / 2) = tiny / 2" "double_round (- (tiny / 2)) = - (tiny / 2)"
proof -
  have h: "tiny / 2 = 2 powr of_int (- 601)"
    unfolding tiny_def using powr_diff [of "2::real" "- 600" 1] by simp
  have t: "tiny = 2 powr of_int (- 600)" by (simp add: tiny_def)
  show "double_round tiny = tiny" "double_round (- tiny) = - tiny"
    unfolding t by (rule double_round_power_of_two; simp)+
  show "double_round (tiny / 2) = tiny / 2" "double_round (- (tiny / 2)) = - (tiny / 2)"
    unfolding h by (rule double_round_power_of_two; simp)+
qed

lemma double_round_units:
  "double_round 1 = 1" "double_round (- 1) = - 1" "double_round (1 / 2) = 1 / 2"
  using double_round_power_of_two [of 0] double_round_power_of_two [of "- 1"]
  by (simp_all add: powr_minus_divide)

lemma double_round_tiny_square:
  "double_round (tiny\<^sup>2) = 0" "double_round ((tiny / 2)\<^sup>2) = 0"
proof -
  have sq: "tiny\<^sup>2 = 2 powr (- 1200)"
    unfolding tiny_def power2_eq_square powr_add [symmetric] by simp
  have "2 powr (- 1200) < (2::real) powr (- 1075)"
    by (rule powr_less_mono) simp_all
  with sq have lt: "\<bar>tiny\<^sup>2\<bar> < 2 powr (- 1075)" by simp
  then show "double_round (tiny\<^sup>2) = 0" by (rule double_round_underflow)
  have "\<bar>(tiny / 2)\<^sup>2\<bar> = tiny\<^sup>2 / 4" by (simp add: power_divide)
  also have "\<dots> \<le> tiny\<^sup>2" by simp
  finally have "\<bar>(tiny / 2)\<^sup>2\<bar> < 2 powr (- 1075)" using lt by simp
  then show "double_round ((tiny / 2)\<^sup>2) = 0" by (rule double_round_underflow)
qed


lemmas double_ops = sub64_def add64_def mul64_def div64_def sqrt64_def square64_def

lemma tiny_nonzero: "tiny \<noteq> 0" using tiny_pos by simp

lemmas tiny_values =
  double_round_zero double_round_tiny double_round_units double_round_tiny_square tiny_nonzero

lemma tiny_overlap:
  "check_temporal_overlap (waypoints tiny_primary ! 0) (waypoints tiny_primary ! (0 + 1))
     (waypoints tiny_other ! 0) (waypoints tiny_other ! (0 + 1)) = Inr True"
  by (simp add: detector_defs scenario_defs tiny_primary_def tiny_other_def)

lemma tiny_denominator:
  "denominator_double (0, 0) (tiny, 0) (tiny / 2, 0) (tiny / 2, 1) = tiny"
  by (simp add: denominator_double_def double_ops tiny_values)

lemma tiny_intersection:
  "find_intersection_double (waypoints tiny_primary ! 0) (waypoints tiny_primary ! (0 + 1))
     (waypoints tiny_other ! 0) (waypoints tiny_other ! (0 + 1)) = Some (tiny / 2, 0)"
  by (simp add: find_intersection_double_def tiny_denominator scenario_defs tiny_primary_def
      tiny_other_def double_ops tiny_values)

lemma tiny_total_dist1:
  "total_dist1_double (waypoints tiny_primary ! 0) (waypoints tiny_primary ! (0 + 1)) = 0"
  by (simp add: total_dist1_double_def scenario_defs tiny_primary_def double_ops tiny_values)

lemma tiny_dist_to_conflict1:
  "dist_to_conflict1_double (waypoints tiny_primary ! 0) (tiny / 2, 0) = 0"
  by (simp add: dist_to_conflict1_double_def scenario_defs tiny_primary_def double_ops tiny_values)

lemma tiny_distance:
  "calculate_distance_double (waypoints tiny_primary ! 0) (waypoints tiny_other ! 0) p = 0"
  by (simp add: calculate_distance_double_def scenario_defs tiny_primary_def tiny_other_def
      double_ops tiny_values)

lemma tiny_conflict_time:
  "calculate_conflict_time_double (waypoints tiny_primary ! 0) (waypoints tiny_primary ! (0 + 1))
     (waypoints tiny_other ! 0) (waypoints tiny_other ! (0 + 1)) (tiny / 2, 0)
   = Inr (Some (clock 10 0))"
proof -
  have "time_ratio1_double (waypoints tiny_primary ! 0) (waypoints tiny_primary ! (0 + 1))
          (tiny / 2, 0) = 0"
    using tiny_total_dist1 by (simp add: time_ratio1_double_def)
  then show ?thesis
    by (simp add: calculate_conflict_time_double_def scenario_defs tiny_primary_def
        timedelta_seconds_def round_half_even_def double_ops tiny_values)
qed

lemma format_2f_small: "0 \<le> r \<Longrightarrow> r < 1 / 200 \<Longrightarrow> format_2f r = ''0.00''"
proof -
  assume a: "0 \<le> r" "r < 1 / 200"
  then have "\<bar>\<bar>r\<bar> * 100\<bar> < 1 / 2" by simp
  then have "round_half_even (\<bar>r\<bar> * 100) = 0" by (rule round_half_even_small)
  with a show ?thesis by (simp add: format_2f_def two_digits_def str_nat.simps)
qed

lemma tiny_conflict:
  "check_segment_pair_double \<lparr>safety_buffer = 50\<rparr> tiny_primary tiny_other 0 0
     = Inr [tiny_record]"
proof -
  have f: "format_2f (tiny / 2) = ''0.00''" "format_2f 0 = ''0.00''"
    using tiny_pos tiny_small by (simp_all add: format_2f_small)
  have s: "strftime_HMS (clock 10 0) = ''10:00:00''"
    by (simp add: strftime_HMS_def clock_def two_digits_def)
  have ids: "drone_id tiny_primary = ''primary''" "drone_id tiny_other = ''traffic1''"
    by (simp_all add: tiny_primary_def tiny_other_def window_def)
  have "make_conflict tiny_primary tiny_other (tiny / 2, 0) (clock 10 0) 0 = tiny_record"
    by (simp add: make_conflict_def tiny_record_def f s ids)
  then show ?thesis
    using tiny_overlap tiny_intersection tiny_conflict_time tiny_distance [of "(tiny / 2, 0)"]
    by (simp add: check_segment_pair_double_def)
qed


lemma check_segment_pair_double_no_point:
  assumes "find_intersection_double (waypoints m1 ! i) (waypoints m1 ! (i + 1))
             (waypoints m2 ! j) (waypoints m2 ! (j + 1)) = None"
    and "check_segment_pair_double self m1 m2 i j = Inr cs"
  shows "cs = []"
  using assms
  by (auto simp: check_segment_pair_double_def Let_def split: sum.splits if_splits)

section \<open>Waypoint construction\<close>

text \<open>
  C8. Constructing a waypoint fails exactly when \<open>x < 0\<close>, or \<open>y < 0\<close>, or \<open>z\<close> is
  present and \<open>z < 0\<close>; a waypoint with \<open>x = 0\<close> and \<open>y = 0\<close> whose \<open>z\<close> is absent or
  non-negative is constructed, unchanged.
\<close>

theorem Waypoint_post_init_fails_iff:
  "((\<exists>e. Waypoint_post_init w = Inl e) \<longleftrightarrow>
      (wp_x w < 0 \<or> wp_y w < 0 \<or> (\<exists>a. wp_z w = Some a \<and> a < 0)))
   \<and> ((\<exists>e. Waypoint_post_init w = Inl e) \<or> Waypoint_post_init w = Inr w)
   \<and> (wp_x w = 0 \<and> wp_y w = 0 \<and> (wp_z w = None \<or> 0 \<le> the (wp_z w))
        \<longrightarrow> Waypoint_post_init w = Inr w)"
  by (auto simp: Waypoint_post_init_def)

theorem Waypoint_post_init_fails_iff_witness:
  "Waypoint_post_init \<lparr>wp_x = 0, wp_y = 0, wp_z = None, timestamp = None\<rparr>
     = Inr \<lparr>wp_x = 0, wp_y = 0, wp_z = None, timestamp = None\<rparr>
   \<and> (\<exists>e. Waypoint_post_init \<lparr>wp_x = 3, wp_y = 4, wp_z = Some (- 1), timestamp = None\<rparr> = Inl e)"
  using Waypoint_post_init_fails_iff
          [of "\<lparr>wp_x = 0, wp_y = 0, wp_z = None, timestamp = None\<rparr>"]
        Waypoint_post_init_fails_iff
          [of "\<lparr>wp_x = 3, wp_y = 4, wp_z = Some (- 1), timestamp = None\<rparr>"]
  by simp

section \<open>Mission construction\<close>

text \<open>
  C7. Constructing a mission fails exactly when the waypoint list is empty, or
  \<open>end_time \<le> start_time\<close>, or some waypoint carries a timestamp outside
  \<open>[start_time, end_time]\<close>. A successful construction keeps the time window, the drone
  identifier and the waypoints as a multiset; when every waypoint carries a timestamp the
  stored list is the stable sort by timestamp, hence ascending, and otherwise it is the
  list the caller gave.
\<close>

theorem Mission_post_init_spec:
  "((\<exists>e. Mission_post_init m = Inl e) \<longleftrightarrow>
      (waypoints m = [] \<or> end_time m \<le> start_time m
       \<or> (\<exists>wp\<in>set (waypoints m). \<exists>t. timestamp wp = Some t
             \<and> \<not> (start_time m \<le> t \<and> t \<le> end_time m))))
   \<and> (Mission_post_init m = Inr m' \<longrightarrow>
        start_time m' = start_time m \<and> end_time m' = end_time m \<and> drone_id m' = drone_id m
        \<and> mset (waypoints m') = mset (waypoints m)
        \<and> ((\<forall>wp\<in>set (waypoints m). timestamp wp \<noteq> None) \<longrightarrow>
              sorted (map (the \<circ> timestamp) (waypoints m'))
              \<and> waypoints m' = sort_key (the \<circ> timestamp) (waypoints m))
        \<and> (\<not> (\<forall>wp\<in>set (waypoints m). timestamp wp \<noteq> None) \<longrightarrow>
              waypoints m' = waypoints m))"
proof -
  let ?ws = "if list_all (\<lambda>wp. timestamp wp \<noteq> None) (waypoints m)
             then sort_key (the \<circ> timestamp) (waypoints m) else waypoints m"
  have set_ws: "set ?ws = set (waypoints m)" by simp
  have fails: "(\<exists>e. Mission_post_init m = Inl e) \<longleftrightarrow>
      (waypoints m = [] \<or> end_time m \<le> start_time m
       \<or> (\<exists>e. validate_timestamps (start_time m) (end_time m) ?ws = Inl e))"
    by (auto simp: Mission_post_init_def Let_def split: sum.splits)
  have "(\<exists>e. validate_timestamps (start_time m) (end_time m) ?ws = Inl e) \<longleftrightarrow>
      (\<exists>wp\<in>set (waypoints m). \<exists>t. timestamp wp = Some t
             \<and> \<not> (start_time m \<le> t \<and> t \<le> end_time m))"
    unfolding validate_timestamps_Inl_iff set_ws ..
  with fails have part1: "(\<exists>e. Mission_post_init m = Inl e) \<longleftrightarrow>
      (waypoints m = [] \<or> end_time m \<le> start_time m
       \<or> (\<exists>wp\<in>set (waypoints m). \<exists>t. timestamp wp = Some t
             \<and> \<not> (start_time m \<le> t \<and> t \<le> end_time m)))"
    by simp
  have part2: "start_time m' = start_time m \<and> end_time m' = end_time m \<and> drone_id m' = drone_id m
        \<and> mset (waypoints m') = mset (waypoints m)
        \<and> ((\<forall>wp\<in>set (waypoints m). timestamp wp \<noteq> None) \<longrightarrow>
              sorted (map (the \<circ> timestamp) (waypoints m'))
              \<and> waypoints m' = sort_key (the \<circ> timestamp) (waypoints m))
        \<and> (\<not> (\<forall>wp\<in>set (waypoints m). timestamp wp \<noteq> None) \<longrightarrow>
              waypoints m' = waypoints m)"
    if "Mission_post_init m = Inr m'"
  proof -
    from that have m': "m' = m\<lparr>waypoints := ?ws\<rparr>"
      by (auto simp: Mission_post_init_def Let_def split: sum.splits if_splits)
    show ?thesis
      unfolding m' by (auto simp: list_all_iff)
  qed
  from part1 part2 show ?thesis by blast
qed

theorem Mission_post_init_spec_witness:
  "Mission_post_init unsorted_mission = Inr sorted_mission
   \<and> sorted (map (the \<circ> timestamp) (waypoints sorted_mission))
   \<and> Mission_post_init untimed_primary = Inr untimed_primary
   \<and> (\<exists>e. Mission_post_init late_mission = Inl e)
   \<and> (\<exists>e. Mission_post_init (window [] ''empty'') = Inl e)"
proof -
  have a: "Mission_post_init unsorted_mission = Inr sorted_mission"
    by (simp add: Mission_post_init_def scenario_defs)
  have b: "Mission_post_init untimed_primary = Inr untimed_primary"
    by (simp add: Mission_post_init_def scenario_defs)
  have c: "\<exists>e. Mission_post_init late_mission = Inl e"
    using Mission_post_init_spec [of late_mission]
    by (simp add: scenario_defs)
  have d: "\<exists>e. Mission_post_init (window [] ''empty'') = Inl e"
    using Mission_post_init_spec [of "window [] ''empty''"]
    by (simp add: scenario_defs)
  have e: "sorted (map (the \<circ> timestamp) (waypoints sorted_mission))"
    using a Mission_post_init_spec [of unsorted_mission sorted_mission]
    by (simp add: unsorted_mission_def window_def Waypoint_at_def)
  from a b c d e show ?thesis by simp
qed

section \<open>Trajectories with a single waypoint\<close>

text \<open>
  C9. A trajectory with exactly one waypoint has no segment: comparing it with any other
  trajectory, as the primary or as the other one, gives no conflict and no error.
  A primary of one waypoint is clear against every list of others, and a single-waypoint
  trajectory among the others can be left out without changing the result.
\<close>

theorem single_waypoint_no_conflict:
  "(length (waypoints m1) = 1 \<or> length (waypoints m2) = 1
      \<longrightarrow> check_mission_pair self m1 m2 = Inr [])
   \<and> (length (waypoints m1) = 1 \<longrightarrow> check_mission self m1 others = Inr (''clear'', []))
   \<and> (length (waypoints m2) = 1
      \<longrightarrow> check_mission self m1 (before @ m2 # after) = check_mission self m1 (before @ after))"
proof -
  have pair: "check_mission_pair self' a b = Inr []"
    if "length (waypoints a) = 1 \<or> length (waypoints b) = 1" for self' a b
  proof -
    have "[0..<length (waypoints a) - 1] = [] \<or> [0..<length (waypoints b) - 1] = []"
      using that by auto
    then show ?thesis
      unfolding check_mission_pair_def by (auto simp: outer_loop_empty)
  qed
  have prim: "check_mission self m1 others = Inr (''clear'', [])" if "length (waypoints m1) = 1"
  proof -
    have "missions_loop self m1 others [] = Inr []"
      by (rule missions_loop_empty) (simp add: pair that)
    then show ?thesis by (simp add: check_mission_def)
  qed
  have skip: "check_mission self m1 (before @ m2 # after) = check_mission self m1 (before @ after)"
    if "length (waypoints m2) = 1"
  proof -
    have "missions_loop self m1 (before @ m2 # after) [] = missions_loop self m1 (before @ after) []"
      by (simp add: missions_loop_append pair that split: sum.splits)
    then show ?thesis by (simp add: check_mission_def)
  qed
  from pair prim skip show ?thesis by blast
qed

theorem single_waypoint_no_conflict_witness:
  "length (waypoints hover) = 1
   \<and> check_mission_pair \<lparr>safety_buffer = 50\<rparr> hover crossing_other = Inr []
   \<and> check_mission_pair \<lparr>safety_buffer = 50\<rparr> crossing_primary hover = Inr []
   \<and> check_mission \<lparr>safety_buffer = 50\<rparr> hover [crossing_other, untimed_other] = Inr (''clear'', [])
   \<and> check_mission \<lparr>safety_buffer = 50\<rparr> head_on_primary [hover, head_on_other]
       = check_mission \<lparr>safety_buffer = 50\<rparr> head_on_primary [head_on_other]"
proof -
  have h: "length (waypoints hover) = 1" by (simp add: scenario_defs)
  show ?thesis
    using h
      single_waypoint_no_conflict
        [of hover crossing_other "\<lparr>safety_buffer = 50\<rparr>" "[crossing_other, untimed_other]"]
      single_waypoint_no_conflict [of crossing_primary hover "\<lparr>safety_buffer = 50\<rparr>"]
      single_waypoint_no_conflict
        [of head_on_primary hover "\<lparr>safety_buffer = 50\<rparr>" _ "[]" "[head_on_other]"]
    by simp
qed

section \<open>The temporal overlap test\<close>

text \<open>
  C3. For a segment pair whose four waypoints carry timestamps, with the primary segment
  running from \<open>s1\<close> to \<open>e1\<close> and the other from \<open>s2\<close> to \<open>e2\<close>, the overlap test is
  false exactly when \<open>e1 < s2\<close> or \<open>e2 < s1\<close>, and then the pair yields no conflict.
  So two segments whose time intervals are disjoint yield no conflict, wherever they
  are, and intervals that touch in one instant overlap. The intervals are those of
  segments in timestamp order, \<open>s1 \<le> e1\<close> and \<open>s2 \<le> e2\<close>, the order that construction
  gives to a mission whose waypoints all carry a timestamp.
\<close>

theorem temporal_overlap_test:
  assumes "timestamp (waypoints m1 ! i) = Some s1"
    and "timestamp (waypoints m1 ! (i + 1)) = Some e1"
    and "timestamp (waypoints m2 ! j) = Some s2"
    and "timestamp (waypoints m2 ! (j + 1)) = Some e2"
  shows "check_temporal_overlap (waypoints m1 ! i) (waypoints m1 ! (i + 1))
           (waypoints m2 ! j) (waypoints m2 ! (j + 1)) = Inr (\<not> (e1 < s2 \<or> e2 < s1))
     \<and> (e1 < s2 \<or> e2 < s1 \<longrightarrow> check_segment_pair self m1 m2 i j = Inr [])
     \<and> (s1 \<le> e1 \<and> s2 \<le> e2 \<and> {s1..e1} \<inter> {s2..e2} = {}
          \<longrightarrow> check_segment_pair self m1 m2 i j = Inr [])
     \<and> (s1 \<le> e1 \<and> s2 \<le> e2 \<and> (e1 = s2 \<or> e2 = s1)
          \<longrightarrow> check_temporal_overlap (waypoints m1 ! i) (waypoints m1 ! (i + 1))
                (waypoints m2 ! j) (waypoints m2 ! (j + 1)) = Inr True)"
proof -
  have ov: "check_temporal_overlap (waypoints m1 ! i) (waypoints m1 ! (i + 1))
           (waypoints m2 ! j) (waypoints m2 ! (j + 1)) = Inr (\<not> (e1 < s2 \<or> e2 < s1))"
    by (rule check_temporal_overlap_Some[OF assms])
  have rej: "check_segment_pair self m1 m2 i j = Inr []" if "e1 < s2 \<or> e2 < s1"
    using that ov by (auto simp: check_segment_pair_def)
  have disj: "e1 < s2 \<or> e2 < s1" if "s1 \<le> e1" "s2 \<le> e2" "{s1..e1} \<inter> {s2..e2} = {}"
  proof (rule ccontr)
    assume "\<not> (e1 < s2 \<or> e2 < s1)"
    then have "max s1 s2 \<in> {s1..e1} \<inter> {s2..e2}" using that by auto
    with that(3) show False by blast
  qed
  show ?thesis using ov rej disj by auto
qed

theorem temporal_overlap_test_witness:
  "check_temporal_overlap (waypoints early_primary ! 0) (waypoints early_primary ! (0 + 1))
       (waypoints late_other ! 0) (waypoints late_other ! (0 + 1)) = Inr False
   \<and> check_segment_pair \<lparr>safety_buffer = 51\<rparr> early_primary late_other 0 0 = Inr []
   \<and> check_temporal_overlap (waypoints early_primary ! 0) (waypoints early_primary ! (0 + 1))
       (waypoints touching_other ! 0) (waypoints touching_other ! (0 + 1)) = Inr True"
  using temporal_overlap_test
          [of early_primary 0 "clock 10 0" "clock 10 4" late_other 0 "clock 10 6" "clock 10 10"
              "\<lparr>safety_buffer = 51\<rparr>"]
        temporal_overlap_test
          [of early_primary 0 "clock 10 0" "clock 10 4" touching_other 0 "clock 10 4"
              "clock 10 10" "\<lparr>safety_buffer = 51\<rparr>"]
  by (simp add: scenario_defs)

section \<open>The safety distance test\<close>

text \<open>
  C4. For a segment pair that passes the temporal test and has an intersection point,
  one conflict is emitted if and only if the computed distance is strictly less than the
  safety buffer, and none otherwise; a distance equal to the safety buffer is not
  reported.
\<close>

theorem safety_distance_strict:
  assumes "check_temporal_overlap (waypoints m1 ! i) (waypoints m1 ! (i + 1))
             (waypoints m2 ! j) (waypoints m2 ! (j + 1)) = Inr True"
    and "find_intersection (waypoints m1 ! i) (waypoints m1 ! (i + 1))
             (waypoints m2 ! j) (waypoints m2 ! (j + 1)) = Some p"
  shows "((\<exists>c. check_segment_pair self m1 m2 i j = Inr [c]) \<longleftrightarrow>
            calculate_distance (waypoints m1 ! i) (waypoints m2 ! j) p < safety_buffer self)
     \<and> (check_segment_pair self m1 m2 i j = Inr [] \<longleftrightarrow>
            \<not> calculate_distance (waypoints m1 ! i) (waypoints m2 ! j) p < safety_buffer self)
     \<and> (calculate_distance (waypoints m1 ! i) (waypoints m2 ! j) p = safety_buffer self
          \<longrightarrow> check_segment_pair self m1 m2 i j = Inr [])"
  using check_segment_pair_emit[OF assms, of self] by (auto split: if_splits)

theorem safety_distance_strict_witness:
  "check_temporal_overlap (waypoints crossing_primary ! 0) (waypoints crossing_primary ! (0 + 1))
     (waypoints crossing_other ! 0) (waypoints crossing_other ! (0 + 1)) = Inr True
   \<and> find_intersection (waypoints crossing_primary ! 0) (waypoints crossing_primary ! (0 + 1))
     (waypoints crossing_other ! 0) (waypoints crossing_other ! (0 + 1)) = Some (40, 30)
   \<and> calculate_distance (waypoints crossing_primary ! 0) (waypoints crossing_other ! 0) (40, 30) = 50
   \<and> check_segment_pair \<lparr>safety_buffer = 50\<rparr> crossing_primary crossing_other 0 0 = Inr []
   \<and> (\<exists>c. check_segment_pair \<lparr>safety_buffer = 51\<rparr> crossing_primary crossing_other 0 0 = Inr [c])"
  using safety_distance_strict
          [OF crossing_overlap crossing_intersection, of "\<lparr>safety_buffer = 50\<rparr>"]
        safety_distance_strict
          [OF crossing_overlap crossing_intersection, of "\<lparr>safety_buffer = 51\<rparr>"]
        crossing_overlap crossing_intersection
  by (simp add: crossing_distance)

text \<open>
  C5. The distance that is compared with the safety buffer and stored in the conflict
  record is the Euclidean distance in the plane between the start waypoint of the primary
  segment and the start waypoint of the other segment; the intersection point has no
  part in it. This holds for the conflicts of one segment pair and for every conflict
  that a comparison of two missions returns.
\<close>

theorem conflict_distance_between_starts:
  "calculate_distance wp1 wp2 p = sqrt ((wp_x wp1 - wp_x wp2)\<^sup>2 + (wp_y wp1 - wp_y wp2)\<^sup>2)
   \<and> calculate_distance wp1 wp2 p = calculate_distance wp1 wp2 q
   \<and> (check_segment_pair self m1 m2 i j = Inr cs \<and> c \<in> set cs \<longrightarrow>
        distance c = sqrt ((wp_x (waypoints m1 ! i) - wp_x (waypoints m2 ! j))\<^sup>2
                         + (wp_y (waypoints m1 ! i) - wp_y (waypoints m2 ! j))\<^sup>2)
        \<and> distance c < safety_buffer self)
   \<and> (check_mission_pair self m1 m2 = Inr r \<and> c \<in> set r \<longrightarrow>
        (\<exists>i j. i + 1 < length (waypoints m1) \<and> j + 1 < length (waypoints m2)
           \<and> distance c = sqrt ((wp_x (waypoints m1 ! i) - wp_x (waypoints m2 ! j))\<^sup>2
                              + (wp_y (waypoints m1 ! i) - wp_y (waypoints m2 ! j))\<^sup>2)))"
proof -
  have seg: "distance c' = sqrt ((wp_x (waypoints m1 ! i') - wp_x (waypoints m2 ! j'))\<^sup>2
                         + (wp_y (waypoints m1 ! i') - wp_y (waypoints m2 ! j'))\<^sup>2)
        \<and> distance c' < safety_buffer self"
    if "check_segment_pair self m1 m2 i' j' = Inr cs'" "c' \<in> set cs'" for i' j' cs' c'
    using check_segment_pair_cases[OF that(1)] that(2)
    by (auto simp: make_conflict_distance calculate_distance_def)
  have mis: "\<exists>i j. i + 1 < length (waypoints m1) \<and> j + 1 < length (waypoints m2)
           \<and> distance c = sqrt ((wp_x (waypoints m1 ! i) - wp_x (waypoints m2 ! j))\<^sup>2
                              + (wp_y (waypoints m1 ! i) - wp_y (waypoints m2 ! j))\<^sup>2)"
    if "check_mission_pair self m1 m2 = Inr r" "c \<in> set r"
  proof -
    from check_mission_pair_member[OF that] obtain i j cs
      where "i + 1 < length (waypoints m1)" "j + 1 < length (waypoints m2)"
        "check_segment_pair self m1 m2 i j = Inr cs" "c \<in> set cs" by blast
    with seg show ?thesis by blast
  qed
  have calc: "calculate_distance wp1 wp2 p = sqrt ((wp_x wp1 - wp_x wp2)\<^sup>2 + (wp_y wp1 - wp_y wp2)\<^sup>2)"
    and indep: "calculate_distance wp1 wp2 p = calculate_distance wp1 wp2 q"
    by (simp_all add: calculate_distance_def)
  from seg[of i j cs c] mis calc indep show ?thesis by blast
qed

theorem conflict_distance_between_starts_witness:
  "check_segment_pair \<lparr>safety_buffer = 51\<rparr> crossing_primary crossing_other 0 0
     = Inr [crossing_record]
   \<and> check_mission_pair \<lparr>safety_buffer = 51\<rparr> crossing_primary crossing_other
     = Inr [crossing_record]
   \<and> distance crossing_record
     = sqrt ((wp_x (waypoints crossing_primary ! 0) - wp_x (waypoints crossing_other ! 0))\<^sup>2
           + (wp_y (waypoints crossing_primary ! 0) - wp_y (waypoints crossing_other ! 0))\<^sup>2)
   \<and> distance crossing_record = 50"
  using conflict_distance_between_starts
    [of _ _ _ _ "\<lparr>safety_buffer = 51\<rparr>" crossing_primary crossing_other 0 0
        "[crossing_record]" crossing_record]
    crossing_conflict crossing_mission_pair
  by (simp add: crossing_record_def)

section \<open>Parallel and degenerate segments\<close>

text \<open>
  C6. A segment pair whose denominator is exactly 0 has no intersection point and emits
  no conflict. For the parallel paths, primary from \<open>(0, 0)\<close> at 10:00 to \<open>(200, 0)\<close> at
  10:10 and other from \<open>(0, 100)\<close> at 10:00 to \<open>(200, 100)\<close> at 10:10, the check returns
  the status clear and no conflict, for every safety buffer.
\<close>

theorem parallel_segments_no_conflict:
  "(denominator (wp_x (waypoints m1 ! i), wp_y (waypoints m1 ! i))
       (wp_x (waypoints m1 ! (i + 1)), wp_y (waypoints m1 ! (i + 1)))
       (wp_x (waypoints m2 ! j), wp_y (waypoints m2 ! j))
       (wp_x (waypoints m2 ! (j + 1)), wp_y (waypoints m2 ! (j + 1))) = 0
     \<longrightarrow> find_intersection (waypoints m1 ! i) (waypoints m1 ! (i + 1))
            (waypoints m2 ! j) (waypoints m2 ! (j + 1)) = None
         \<and> (\<forall>cs. check_segment_pair self m1 m2 i j = Inr cs \<longrightarrow> cs = []))
   \<and> check_mission \<lparr>safety_buffer = sb\<rparr> parallel_primary [parallel_other] = Inr (''clear'', [])"
proof -
  have "check_mission \<lparr>safety_buffer = sb\<rparr> parallel_primary [parallel_other] = Inr (''clear'', [])"
    by (simp add: detector_defs scenario_defs)
  moreover have "find_intersection (waypoints m1 ! i) (waypoints m1 ! (i + 1))
            (waypoints m2 ! j) (waypoints m2 ! (j + 1)) = None
         \<and> (\<forall>cs. check_segment_pair self m1 m2 i j = Inr cs \<longrightarrow> cs = [])"
    if "denominator (wp_x (waypoints m1 ! i), wp_y (waypoints m1 ! i))
       (wp_x (waypoints m1 ! (i + 1)), wp_y (waypoints m1 ! (i + 1)))
       (wp_x (waypoints m2 ! j), wp_y (waypoints m2 ! j))
       (wp_x (waypoints m2 ! (j + 1)), wp_y (waypoints m2 ! (j + 1))) = 0"
  proof -
    have fi: "find_intersection (waypoints m1 ! i) (waypoints m1 ! (i + 1))
            (waypoints m2 ! j) (waypoints m2 ! (j + 1)) = None"
      using that by (simp add: find_intersection_def)
    then show ?thesis
      using check_segment_pair_cases[of self m1 m2 i j] by auto
  qed
  ultimately show ?thesis by blast
qed

theorem parallel_segments_no_conflict_witness:
  "denominator (0, 0) (200, 0) (0, 100) (200, 100) = 0
   \<and> find_intersection (waypoints parallel_primary ! 0) (waypoints parallel_primary ! 1)
            (waypoints parallel_other ! 0) (waypoints parallel_other ! 1) = None
   \<and> check_mission \<lparr>safety_buffer = 100\<rparr> parallel_primary [parallel_other] = Inr (''clear'', [])"
proof -
  have d: "denominator (0, 0) (200, 0) (0, 100) (200, 100) = 0"
    by (simp add: denominator_def)
  show ?thesis
    using d parallel_segments_no_conflict [of parallel_primary 0 parallel_other 0 _ 100]
    by (simp add: scenario_defs)
qed

text \<open>
  C10, as stated: a segment pair with a segment of zero length
  emits no conflict, and hence the branch of the conflict time computation that sets the
  fraction to 0 (taken when the length of the primary segment is not positive) is not
  reached on a path that produces a conflict record. In binary64 the second part fails:
  the primary segment from \<open>(0, 0)\<close> to \<open>(2 ^ (- 600), 0)\<close> has a positive length, the
  square of that length underflows to 0, the computed length is 0, the branch is taken
  and a conflict record is produced.
\<close>

theorem underflow_reaches_zero_branch:
  "Mission_post_init tiny_primary = Inr tiny_primary
   \<and> Mission_post_init tiny_other = Inr tiny_other
   \<and> wp_x (waypoints tiny_primary ! 0) < wp_x (waypoints tiny_primary ! (0 + 1))
   \<and> check_segment_pair_double \<lparr>safety_buffer = 50\<rparr> tiny_primary tiny_other 0 0
       = Inr [tiny_record]
   \<and> \<not> 0 < total_dist1_double (waypoints tiny_primary ! 0) (waypoints tiny_primary ! (0 + 1))
   \<and> time_ratio1_double (waypoints tiny_primary ! 0) (waypoints tiny_primary ! (0 + 1))
        (location tiny_record) = 0"
proof -
  have "Mission_post_init tiny_primary = Inr tiny_primary"
    "Mission_post_init tiny_other = Inr tiny_other"
    by (simp_all add: Mission_post_init_def tiny_primary_def tiny_other_def scenario_defs)
  moreover have "wp_x (waypoints tiny_primary ! 0) < wp_x (waypoints tiny_primary ! (0 + 1))"
    using tiny_pos by (simp add: tiny_primary_def scenario_defs)
  moreover have "time_ratio1_double (waypoints tiny_primary ! 0)
      (waypoints tiny_primary ! (0 + 1)) (location tiny_record) = 0"
    using tiny_total_dist1 by (simp add: time_ratio1_double_def)
  ultimately show ?thesis
    using tiny_conflict tiny_total_dist1 by simp
qed

text \<open>
  C10, amended: when one segment of a pair has zero length (its two waypoints agree in
  \<open>x\<close> and \<open>y\<close>), the denominator is 0, no intersection point is found and the pair emits
  no conflict, in binary64 and in exact arithmetic alike. Hence a pair that emits a
  conflict has no segment of zero length. Nothing is said about the branch that sets the
  fraction to 0.
\<close>

theorem zero_length_segment_emits_nothing:
  "((wp_x (waypoints m1 ! i) = wp_x (waypoints m1 ! (i + 1))
       \<and> wp_y (waypoints m1 ! i) = wp_y (waypoints m1 ! (i + 1)))
     \<or> (wp_x (waypoints m2 ! j) = wp_x (waypoints m2 ! (j + 1))
       \<and> wp_y (waypoints m2 ! j) = wp_y (waypoints m2 ! (j + 1)))
    \<longrightarrow> denominator_double (wp_x (waypoints m1 ! i), wp_y (waypoints m1 ! i))
           (wp_x (waypoints m1 ! (i + 1)), wp_y (waypoints m1 ! (i + 1)))
           (wp_x (waypoints m2 ! j), wp_y (waypoints m2 ! j))
           (wp_x (waypoints m2 ! (j + 1)), wp_y (waypoints m2 ! (j + 1))) = 0
        \<and> find_intersection_double (waypoints m1 ! i) (waypoints m1 ! (i + 1))
            (waypoints m2 ! j) (waypoints m2 ! (j + 1)) = None
        \<and> (\<forall>cs. check_segment_pair_double self m1 m2 i j = Inr cs \<longrightarrow> cs = [])
        \<and> denominator (wp_x (waypoints m1 ! i), wp_y (waypoints m1 ! i))
           (wp_x (waypoints m1 ! (i + 1)), wp_y (waypoints m1 ! (i + 1)))
           (wp_x (waypoints m2 ! j), wp_y (waypoints m2 ! j))
           (wp_x (waypoints m2 ! (j + 1)), wp_y (waypoints m2 ! (j + 1))) = 0
        \<and> find_intersection (waypoints m1 ! i) (waypoints m1 ! (i + 1))
            (waypoints m2 ! j) (waypoints m2 ! (j + 1)) = None
        \<and> (\<forall>cs. check_segment_pair self m1 m2 i j = Inr cs \<longrightarrow> cs = []))
   \<and> ((\<exists>c cs. check_segment_pair_double self m1 m2 i j = Inr (c # cs)
          \<or> check_segment_pair self m1 m2 i j = Inr (c # cs))
        \<longrightarrow> (wp_x (waypoints m1 ! i) \<noteq> wp_x (waypoints m1 ! (i + 1))
              \<or> wp_y (waypoints m1 ! i) \<noteq> wp_y (waypoints m1 ! (i + 1)))
          \<and> (wp_x (waypoints m2 ! j) \<noteq> wp_x (waypoints m2 ! (j + 1))
              \<or> wp_y (waypoints m2 ! j) \<noteq> wp_y (waypoints m2 ! (j + 1))))"
proof -
  let ?a0 = "waypoints m1 ! i" and ?a1 = "waypoints m1 ! (i + 1)"
  let ?b0 = "waypoints m2 ! j" and ?b1 = "waypoints m2 ! (j + 1)"
  let ?zero = "(wp_x ?a0 = wp_x ?a1 \<and> wp_y ?a0 = wp_y ?a1)
                 \<or> (wp_x ?b0 = wp_x ?b1 \<and> wp_y ?b0 = wp_y ?b1)"
  let ?den64 = "denominator_double (wp_x ?a0, wp_y ?a0) (wp_x ?a1, wp_y ?a1)
                (wp_x ?b0, wp_y ?b0) (wp_x ?b1, wp_y ?b1)"
  let ?den = "denominator (wp_x ?a0, wp_y ?a0) (wp_x ?a1, wp_y ?a1)
                (wp_x ?b0, wp_y ?b0) (wp_x ?b1, wp_y ?b1)"
  have zero64: "?den64 = 0" if ?zero
    using that by (auto simp: denominator_double_def double_ops double_round_zero)
  have zero: "?den = 0" if ?zero
    using that by (auto simp: denominator_def)
  have none64: "find_intersection_double ?a0 ?a1 ?b0 ?b1 = None" if ?zero
    using zero64[OF that] by (simp add: find_intersection_double_def)
  have none: "find_intersection ?a0 ?a1 ?b0 ?b1 = None" if ?zero
    using zero[OF that] by (simp add: find_intersection_def)
  have empty64: "cs' = []" if ?zero "check_segment_pair_double self m1 m2 i j = Inr cs'" for cs'
    using check_segment_pair_double_no_point[OF none64[OF that(1)] that(2)] .
  have empty: "cs' = []" if ?zero "check_segment_pair self m1 m2 i j = Inr cs'" for cs'
    using check_segment_pair_cases[OF that(2)] none[OF that(1)] by auto
  have part1: "?zero \<longrightarrow> ?den64 = 0 \<and> find_intersection_double ?a0 ?a1 ?b0 ?b1 = None
        \<and> (\<forall>cs. check_segment_pair_double self m1 m2 i j = Inr cs \<longrightarrow> cs = [])
        \<and> ?den = 0 \<and> find_intersection ?a0 ?a1 ?b0 ?b1 = None
        \<and> (\<forall>cs. check_segment_pair self m1 m2 i j = Inr cs \<longrightarrow> cs = [])"
    using zero64 zero none64 none empty64 empty by blast
  have part2: "\<not> ?zero"
    if "\<exists>c cs. check_segment_pair_double self m1 m2 i j = Inr (c # cs)
          \<or> check_segment_pair self m1 m2 i j = Inr (c # cs)"
    using that empty64 empty by blast
  from part1 part2 show ?thesis by blast
qed

theorem zero_length_segment_emits_nothing_witness:
  "denominator_double (40, 30) (40, 30) (40, 0) (40, 60) = 0
   \<and> find_intersection_double (waypoints loiter ! 0) (waypoints loiter ! (0 + 1))
       (waypoints crossing_other ! 0) (waypoints crossing_other ! (0 + 1)) = None
   \<and> find_intersection (waypoints loiter ! 0) (waypoints loiter ! (0 + 1))
       (waypoints crossing_other ! 0) (waypoints crossing_other ! (0 + 1)) = None
   \<and> check_segment_pair_double \<lparr>safety_buffer = 50\<rparr> tiny_primary tiny_other 0 0
       = Inr [tiny_record]
   \<and> wp_x (waypoints tiny_primary ! 0) \<noteq> wp_x (waypoints tiny_primary ! (0 + 1))"
  using zero_length_segment_emits_nothing
          [of loiter 0 crossing_other 0 "\<lparr>safety_buffer = 50\<rparr>"]
        zero_length_segment_emits_nothing
          [of tiny_primary 0 tiny_other 0 "\<lparr>safety_buffer = 50\<rparr>"]
        tiny_conflict tiny_nonzero
  by (simp add: scenario_defs tiny_primary_def tiny_other_def)

section \<open>The head-on scenario\<close>

text \<open>
  C1, as the specification states it: for the primary path from \<open>(0, 100)\<close> at 10:00 to
  \<open>(200, 100)\<close> at 10:10, the other path from \<open>(200, 100)\<close> at 10:00 to \<open>(0, 100)\<close> at
  10:10 and the safety buffer 50, the check returns exactly one conflict, near
  \<open>(100, 100)\<close>, with distance 0. The detector returns no conflict on this input.
\<close>

theorem head_on_counterexample:
  "check_mission \<lparr>safety_buffer = 50\<rparr> head_on_primary [head_on_other] = Inr (''clear'', [])"
  by (simp add: detector_defs scenario_defs)

text \<open>
  C1, amended: both missions of the head-on scenario are well-formed; their segments lie
  on one line, so that the denominator is 0 and no intersection point is found; the
  distance between the two start waypoints is 200; and the check returns the status
  clear with no conflict, for the safety buffer 50 and for every other one.
\<close>

theorem head_on_clear:
  "Mission_post_init head_on_primary = Inr head_on_primary
   \<and> Mission_post_init head_on_other = Inr head_on_other
   \<and> find_intersection (waypoints head_on_primary ! 0) (waypoints head_on_primary ! 1)
        (waypoints head_on_other ! 0) (waypoints head_on_other ! 1) = None
   \<and> calculate_distance (waypoints head_on_primary ! 0) (waypoints head_on_other ! 0) p = 200
   \<and> check_mission \<lparr>safety_buffer = sb\<rparr> head_on_primary [head_on_other] = Inr (''clear'', [])"
proof -
  have "sqrt ((200::real)\<^sup>2) = 200" by simp
  then have "calculate_distance (waypoints head_on_primary ! 0) (waypoints head_on_other ! 0) p
      = 200"
    by (simp add: calculate_distance_def scenario_defs)
  then show ?thesis
    by (simp add: detector_defs scenario_defs Mission_post_init_def)
qed

theorem head_on_clear_witness:
  "check_mission \<lparr>safety_buffer = 50\<rparr> head_on_primary [head_on_other] = Inr (''clear'', [])
   \<and> check_mission \<lparr>safety_buffer = 1000\<rparr> head_on_primary [head_on_other] = Inr (''clear'', [])
   \<and> calculate_distance (waypoints head_on_primary ! 0) (waypoints head_on_other ! 0) (100, 100)
       = 200"
  using head_on_clear [of "(100, 100)" 50] head_on_clear [of "(100, 100)" 1000] by simp

section \<open>Waypoints without timestamps\<close>

text \<open>
  C2. The specification states that the check returns a result for all well-formed
  trajectories, among them those whose waypoints carry no timestamp. The two missions
  \<open>untimed_primary\<close> and \<open>untimed_other\<close> pass the construction of their waypoints and
  their own construction, and the check raises \<open>TypeError\<close> on them: the temporal
  overlap test orders \<open>None\<close> against \<open>None\<close>.
\<close>

theorem check_mission_untimed_TypeError:
  "Waypoint_post_init (Waypoint_xy 0 0) = Inr (Waypoint_xy 0 0)
   \<and> Waypoint_post_init (Waypoint_xy 100 100) = Inr (Waypoint_xy 100 100)
   \<and> Waypoint_post_init (Waypoint_xy 0 100) = Inr (Waypoint_xy 0 100)
   \<and> Waypoint_post_init (Waypoint_xy 100 0) = Inr (Waypoint_xy 100 0)
   \<and> Mission_post_init untimed_primary = Inr untimed_primary
   \<and> Mission_post_init untimed_other = Inr untimed_other
   \<and> check_mission \<lparr>safety_buffer = 50\<rparr> untimed_primary [untimed_other] = Inl TypeError"
  by (simp add: detector_defs scenario_defs Mission_post_init_def Waypoint_post_init_def)

end
